theory Spec2Isabelle
  imports Main "HOL-Library.Word" "HOL-Library.Char_ord" "HOL-Library.List_Lexorder"
    "HOL-Library.Sublist"
begin

unbundle bit_operations_syntax

section \<open>Python strings\<close>

text \<open>
  The script \<^verbatim>\<open>hash.py\<close> works on Python \<^verbatim>\<open>str\<close> values that it turns into bytes with
  \<^verbatim>\<open>encode()\<close>. Both are modelled as \<^typ>\<open>string\<close>, a list of 8-bit characters: a
  \<^verbatim>\<open>str\<close> is its UTF-8 byte sequence and \<^verbatim>\<open>encode()\<close> is the identity. The order on
  strings is the lexicographic order on the bytes, which is the order Python's
  \<^verbatim>\<open>list.sort\<close> uses on \<^verbatim>\<open>str\<close> (UTF-8 keeps the order of code points).
\<close>

text \<open>\<^verbatim>\<open>s.split(c)\<close> for a one-character separator: never empty.\<close>

fun str_split :: "char \<Rightarrow> string \<Rightarrow> string list" where
  "str_split c [] = [[]]"
| "str_split c (x # xs) =
     (if x = c then [] # str_split c xs
      else (case str_split c xs of [] \<Rightarrow> [[x]] | w # ws \<Rightarrow> (x # w) # ws))"

text \<open>\<^verbatim>\<open>s.join(xs)\<close>.\<close>

fun str_join :: "string \<Rightarrow> string list \<Rightarrow> string" where
  "str_join s [] = []"
| "str_join s [x] = x"
| "str_join s (x # y # ys) = x @ s @ str_join s (y # ys)"

text \<open>
  \<^verbatim>\<open>s.replace(old, new, count)\<close>: the leftmost non-overlapping occurrences, at most
  \<^verbatim>\<open>count\<close> of them (\<open>None\<close> when the call gives no count). An empty \<^verbatim>\<open>old\<close>
  matches before every character and at the end.
\<close>

function str_replace :: "string \<Rightarrow> string \<Rightarrow> nat option \<Rightarrow> string \<Rightarrow> string" where
  "str_replace old new count [] =
     (if count = Some 0 then [] else if old = [] then new else [])"
| "str_replace old new count (c # cs) =
     (if count = Some 0 then c # cs
      else if old = [] then new @ c # str_replace old new (map_option (\<lambda>n. n - 1) count) cs
      else if prefix old (c # cs)
        then new @ str_replace old new (map_option (\<lambda>n. n - 1) count) (drop (length old) (c # cs))
      else c # str_replace old new count cs)"
  by pat_completeness auto
termination
  by (relation "measure (\<lambda>(old, new, count, s). length s)") auto

definition startswith :: "string \<Rightarrow> string \<Rightarrow> bool" where
  "startswith s p = prefix p s"

definition endswith :: "string \<Rightarrow> string \<Rightarrow> bool" where
  "endswith s p = suffix p s"

section \<open>The lexical part of \<^verbatim>\<open>os.path\<close> (posixpath)\<close>

definition isabs :: "string \<Rightarrow> bool" where
  "isabs s = startswith s ''/''"

text \<open>\<^verbatim>\<open>os.path.join(a, b)\<close> and \<^verbatim>\<open>os.path.join(a, *p)\<close>.\<close>

definition join2 :: "string \<Rightarrow> string \<Rightarrow> string" where
  "join2 path b =
     (if startswith b ''/'' then b
      else if path = [] \<or> endswith path ''/'' then path @ b
      else path @ ''/'' @ b)"

definition path_join :: "string \<Rightarrow> string list \<Rightarrow> string" where
  "path_join a p = foldl join2 a p"

text \<open>
  \<^verbatim>\<open>normpath\<close>: one or two leading slashes are kept, three or more become one; the loop
  over the components drops empty ones and \<^verbatim>\<open>.\<close>, and lets \<^verbatim>\<open>..\<close> remove the
  component before it.
\<close>

definition initial_slashes :: "string \<Rightarrow> nat" where
  "initial_slashes path =
     (if startswith path ''/''
      then (if startswith path ''//'' \<and> \<not> startswith path ''///'' then 2 else 1)
      else 0)"

fun norm_comps :: "nat \<Rightarrow> string list \<Rightarrow> string list \<Rightarrow> string list" where
  "norm_comps i new_comps [] = new_comps"
| "norm_comps i new_comps (c # comps) =
     (if c = [] \<or> c = ''.'' then norm_comps i new_comps comps
      else if c = ''..'' \<and> \<not> (i = 0 \<and> new_comps = [])
                \<and> \<not> (new_comps \<noteq> [] \<and> last new_comps = ''..'')
        then (if new_comps \<noteq> [] then norm_comps i (butlast new_comps) comps
              else norm_comps i new_comps comps)
      else norm_comps i (new_comps @ [c]) comps)"

definition normpath :: "string \<Rightarrow> string" where
  "normpath path =
     (if path = [] then ''.''
      else let i = initial_slashes path;
               p = replicate i CHR ''/'' @ str_join ''/'' (norm_comps i [] (str_split CHR ''/'' path))
           in if p = [] then ''.'' else p)"

text \<open>\<^verbatim>\<open>p.rfind('/') + 1\<close>: the index after the last slash, 0 when there is none.\<close>

definition rfind_sep :: "string \<Rightarrow> nat" where
  "rfind_sep p = length p - length (takeWhile (\<lambda>c. c \<noteq> CHR ''/'') (rev p))"

definition rstrip_sep :: "string \<Rightarrow> string" where
  "rstrip_sep s = rev (dropWhile (\<lambda>c. c = CHR ''/'') (rev s))"

definition dirname :: "string \<Rightarrow> string" where
  "dirname p =
     (let head = take (rfind_sep p) p
      in if head \<noteq> [] \<and> head \<noteq> replicate (length head) CHR ''/'' then rstrip_sep head else head)"

definition basename :: "string \<Rightarrow> string" where
  "basename p = drop (rfind_sep p) p"

text \<open>\<^verbatim>\<open>os.path.commonprefix\<close> of two lists of components.\<close>

fun commonprefix :: "string list \<Rightarrow> string list \<Rightarrow> string list" where
  "commonprefix (x # xs) (y # ys) = (if x = y then x # commonprefix xs ys else [])"
| "commonprefix _ _ = []"

section \<open>The filesystem\<close>

text \<open>
  A filesystem is a tree of directories and regular files (no symbolic links, no
  permissions). The order of a directory's entries is the order in which the operating
  system lists them. A location is the list of names from the root; the working directory
  is a location, and modification times are kept by location.
\<close>

datatype errno = ENOENT | ENOTDIR | EISDIR | EACCES | EPERM | EIO

datatype error = IndexError | ValueError | OSError errno

datatype node = File string | Dir "(string \<times> node) list"

record filesystem =
  fs_root :: "(string \<times> node) list"
  fs_cwd :: "string list"
  fs_mtime :: "string list \<Rightarrow> int"

fun node_at :: "node \<Rightarrow> string list \<Rightarrow> node option" where
  "node_at t [] = Some t"
| "node_at (File _) (n # ns) = None"
| "node_at (Dir es) (n # ns) = (case map_of es n of None \<Rightarrow> None | Some t \<Rightarrow> node_at t ns)"

text \<open>
  Path resolution, one component at a time from a location: every component is looked up
  in a directory (\<^verbatim>\<open>ENOTDIR\<close> when the location is a file), an empty component or
  \<^verbatim>\<open>.\<close> stays, \<^verbatim>\<open>..\<close> goes to the parent (the root is its own parent).
\<close>

fun resolve_from :: "node \<Rightarrow> string list \<Rightarrow> string list \<Rightarrow> errno + string list" where
  "resolve_from r loc [] = Inr loc"
| "resolve_from r loc (c # cs) =
     (case node_at r loc of
        None \<Rightarrow> Inl ENOENT
      | Some (File _) \<Rightarrow> Inl ENOTDIR
      | Some (Dir es) \<Rightarrow>
          if c = [] \<or> c = ''.'' then resolve_from r loc cs
          else if c = ''..'' then resolve_from r (butlast loc) cs
          else (case map_of es c of
                  None \<Rightarrow> Inl ENOENT
                | Some _ \<Rightarrow> resolve_from r (loc @ [c]) cs))"

definition resolve :: "filesystem \<Rightarrow> string \<Rightarrow> errno + string list" where
  "resolve fs p =
     (if p = [] then Inl ENOENT
      else resolve_from (Dir (fs_root fs)) (if isabs p then [] else fs_cwd fs) (str_split CHR ''/'' p))"

definition stat :: "filesystem \<Rightarrow> string \<Rightarrow> errno + node" where
  "stat fs p =
     (case resolve fs p of
        Inl e \<Rightarrow> Inl e
      | Inr loc \<Rightarrow> (case node_at (Dir (fs_root fs)) loc of None \<Rightarrow> Inl ENOENT | Some t \<Rightarrow> Inr t))"

definition isdir :: "filesystem \<Rightarrow> string \<Rightarrow> bool" where
  "isdir fs p = (case stat fs p of Inr (Dir _) \<Rightarrow> True | _ \<Rightarrow> False)"

definition isfile :: "filesystem \<Rightarrow> string \<Rightarrow> bool" where
  "isfile fs p = (case stat fs p of Inr (File _) \<Rightarrow> True | _ \<Rightarrow> False)"

text \<open>\<^verbatim>\<open>open(p, 'rb')\<close> followed by reading: the content of a regular file.\<close>

definition open_rb :: "filesystem \<Rightarrow> string \<Rightarrow> error + string" where
  "open_rb fs p =
     (case stat fs p of
        Inl e \<Rightarrow> Inl (OSError e)
      | Inr (Dir _) \<Rightarrow> Inl (OSError EISDIR)
      | Inr (File content) \<Rightarrow> Inr content)"

definition getcwd :: "filesystem \<Rightarrow> string" where
  "getcwd fs = ''/'' @ str_join ''/'' (fs_cwd fs)"

definition chdir :: "filesystem \<Rightarrow> string \<Rightarrow> error + filesystem" where
  "chdir fs p =
     (case resolve fs p of
        Inl e \<Rightarrow> Inl (OSError e)
      | Inr loc \<Rightarrow>
          (case node_at (Dir (fs_root fs)) loc of
             Some (Dir _) \<Rightarrow> Inr (fs\<lparr>fs_cwd := loc\<rparr>)
           | Some (File _) \<Rightarrow> Inl (OSError ENOTDIR)
           | None \<Rightarrow> Inl (OSError ENOENT)))"

definition abspath :: "filesystem \<Rightarrow> string \<Rightarrow> string" where
  "abspath fs path = normpath (if isabs path then path else join2 (getcwd fs) path)"

definition relpath :: "filesystem \<Rightarrow> string \<Rightarrow> string \<Rightarrow> error + string" where
  "relpath fs path start =
     (if path = [] then Inl ValueError
      else let start_list = filter (\<lambda>x. x \<noteq> []) (str_split CHR ''/'' (abspath fs start));
               path_list = filter (\<lambda>x. x \<noteq> []) (str_split CHR ''/'' (abspath fs path));
               i = length (commonprefix start_list path_list);
               rel_list = replicate (length start_list - i) ''..'' @ drop i path_list
           in if rel_list = [] then Inr ''.''
              else Inr (path_join (hd rel_list) (tl rel_list)))"

text \<open>
  \<^verbatim>\<open>os.walk(top)\<close> on the entries of a directory: the directory's own triple first
  (its path, the names of its subdirectories, the names of its other entries), then the
  walk of each subdirectory, in the order of the entries.
\<close>

fun walk :: "string \<Rightarrow> (string \<times> node) list \<Rightarrow> (string \<times> string list \<times> string list) list"
  and walk_dirs :: "string \<Rightarrow> (string \<times> node) list \<Rightarrow> (string \<times> string list \<times> string list) list"
where
  "walk top_path es =
     (top_path, map fst (filter (\<lambda>(n, t). case t of Dir _ \<Rightarrow> True | File _ \<Rightarrow> False) es),
           map fst (filter (\<lambda>(n, t). case t of Dir _ \<Rightarrow> False | File _ \<Rightarrow> True) es))
     # walk_dirs top_path es"
| "walk_dirs top_path [] = []"
| "walk_dirs top_path ((n, File _) # es) = walk_dirs top_path es"
| "walk_dirs top_path ((n, Dir sub) # es) = walk (join2 top_path n) sub @ walk_dirs top_path es"

definition os_walk :: "filesystem \<Rightarrow> string \<Rightarrow> (string \<times> string list \<times> string list) list" where
  "os_walk fs top_path = (case stat fs top_path of Inr (Dir es) \<Rightarrow> walk top_path es | _ \<Rightarrow> [])"

text \<open>\<^verbatim>\<open>os.listdir\<close>, \<^verbatim>\<open>os.path.getmtime\<close> and \<^verbatim>\<open>os.remove\<close>.\<close>

definition listdir :: "filesystem \<Rightarrow> string \<Rightarrow> errno + string list" where
  "listdir fs p =
     (case stat fs p of
        Inl e \<Rightarrow> Inl e
      | Inr (File _) \<Rightarrow> Inl ENOTDIR
      | Inr (Dir es) \<Rightarrow> Inr (map fst es))"

definition getmtime :: "filesystem \<Rightarrow> string \<Rightarrow> errno + int" where
  "getmtime fs p =
     (case resolve fs p of
        Inl e \<Rightarrow> Inl e
      | Inr loc \<Rightarrow>
          (case node_at (Dir (fs_root fs)) loc of
             None \<Rightarrow> Inl ENOENT
           | Some _ \<Rightarrow> Inr (fs_mtime fs loc)))"

fun remove_at :: "(string \<times> node) list \<Rightarrow> string \<Rightarrow> string list \<Rightarrow> (string \<times> node) list" where
  "remove_at [] n ns = []"
| "remove_at ((m, t) # es) n ns =
     (if m = n
      then (case ns of
              [] \<Rightarrow> es
            | n' # ns' \<Rightarrow>
                (case t of
                   Dir sub \<Rightarrow> (m, Dir (remove_at sub n' ns')) # es
                 | File _ \<Rightarrow> (m, t) # es))
      else (m, t) # remove_at es n ns)"

definition remove :: "filesystem \<Rightarrow> string \<Rightarrow> errno + filesystem" where
  "remove fs p =
     (case resolve fs p of
        Inl e \<Rightarrow> Inl e
      | Inr loc \<Rightarrow>
          (case node_at (Dir (fs_root fs)) loc of
             None \<Rightarrow> Inl ENOENT
           | Some (Dir _) \<Rightarrow> Inl EISDIR
           | Some (File _) \<Rightarrow>
               (case loc of
                  [] \<Rightarrow> Inl EISDIR
                | n # ns \<Rightarrow> Inr (fs\<lparr>fs_root := remove_at (fs_root fs) n ns\<rparr>))))"

section \<open>SHA-256\<close>

text \<open>
  \<^verbatim>\<open>hashlib.sha256\<close> as FIPS 180-4 defines it. A hash object is modelled by the bytes it
  has been fed so far: \<^verbatim>\<open>update\<close> appends, \<^verbatim>\<open>hexdigest\<close> hashes the whole message.
\<close>

type_synonym u32 = "32 word"

definition sha_k :: "u32 list" where
  "sha_k = [
   1116352408, 1899447441, 3049323471, 3921009573, 961987163, 1508970993, 2453635748, 2870763221,
   3624381080, 310598401, 607225278, 1426881987, 1925078388, 2162078206, 2614888103, 3248222580,
   3835390401, 4022224774, 264347078, 604807628, 770255983, 1249150122, 1555081692, 1996064986,
   2554220882, 2821834349, 2952996808, 3210313671, 3336571891, 3584528711, 113926993, 338241895,
   666307205, 773529912, 1294757372, 1396182291, 1695183700, 1986661051, 2177026350, 2456956037,
   2730485921, 2820302411, 3259730800, 3345764771, 3516065817, 3600352804, 4094571909, 275423344,
   430227734, 506948616, 659060556, 883997877, 958139571, 1322822218, 1537002063, 1747873779,
   1955562222, 2024104815, 2227730452, 2361852424, 2428436474, 2756734187, 3204031479, 3329325298]"

definition sha_h0 :: "u32 \<times> u32 \<times> u32 \<times> u32 \<times> u32 \<times> u32 \<times> u32 \<times> u32" where
  "sha_h0 = (1779033703, 3144134277, 1013904242, 2773480762, 1359893119, 2600822924, 528734635, 1541459225)"

definition rotr :: "nat \<Rightarrow> u32 \<Rightarrow> u32" where
  "rotr n x = (drop_bit n x) OR (push_bit (32 - n) x)"

definition ssig0 :: "u32 \<Rightarrow> u32" where "ssig0 x = rotr 7 x XOR rotr 18 x XOR drop_bit 3 x"
definition ssig1 :: "u32 \<Rightarrow> u32" where "ssig1 x = rotr 17 x XOR rotr 19 x XOR drop_bit 10 x"
definition bsig0 :: "u32 \<Rightarrow> u32" where "bsig0 x = rotr 2 x XOR rotr 13 x XOR rotr 22 x"
definition bsig1 :: "u32 \<Rightarrow> u32" where "bsig1 x = rotr 6 x XOR rotr 11 x XOR rotr 25 x"
definition ch :: "u32 \<Rightarrow> u32 \<Rightarrow> u32 \<Rightarrow> u32" where "ch x y z = (x AND y) XOR (NOT x AND z)"
definition maj :: "u32 \<Rightarrow> u32 \<Rightarrow> u32 \<Rightarrow> u32" where "maj x y z = (x AND y) XOR (x AND z) XOR (y AND z)"

fun be_words :: "string \<Rightarrow> u32 list" where
  "be_words (a # b # c # d # rest) =
     (push_bit 24 (of_char a) OR push_bit 16 (of_char b) OR push_bit 8 (of_char c) OR of_char d) # be_words rest"
| "be_words _ = []"

fun schedule :: "nat \<Rightarrow> u32 list \<Rightarrow> u32 list" where
  "schedule 0 ws = ws"
| "schedule (Suc n) ws = schedule n ((ssig1 (ws ! 1) + ws ! 6 + ssig0 (ws ! 14) + ws ! 15) # ws)"

type_synonym sha_state = "u32 \<times> u32 \<times> u32 \<times> u32 \<times> u32 \<times> u32 \<times> u32 \<times> u32"

fun round_step :: "sha_state \<Rightarrow> u32 \<times> u32 \<Rightarrow> sha_state" where
  "round_step (a, b, c, d, e, f, g, h) (k, w) =
     (let t1 = h + bsig1 e + ch e f g + k + w; t2 = bsig0 a + maj a b c
      in (t1 + t2, a, b, c, d + t1, e, f, g))"

fun add_state :: "sha_state \<Rightarrow> sha_state \<Rightarrow> sha_state" where
  "add_state (a, b, c, d, e, f, g, h) (a', b', c', d', e', f', g', h') =
     (a + a', b + b', c + c', d + d', e + e', f + f', g + g', h + h')"

definition compress :: "sha_state \<Rightarrow> string \<Rightarrow> sha_state" where
  "compress hs block = add_state hs (foldl round_step hs (zip sha_k (rev (schedule 48 (rev (be_words block))))))"

definition len_bytes :: "nat \<Rightarrow> string" where
  "len_bytes n = map (\<lambda>i. char_of (unat (drop_bit (8 * i) (of_nat n :: 64 word)))) [7, 6, 5, 4, 3, 2, 1, 0]"

definition pad :: "string \<Rightarrow> string" where
  "pad m = m @ [char_of (128::nat)] @ replicate ((119 - length m mod 64) mod 64) (char_of (0::nat)) @ len_bytes (8 * length m)"

fun blocks :: "nat \<Rightarrow> sha_state \<Rightarrow> string \<Rightarrow> sha_state" where
  "blocks 0 hs m = hs"
| "blocks (Suc n) hs m = blocks n (compress hs (take 64 m)) (drop 64 m)"

definition sha256_digest :: "string \<Rightarrow> sha_state" where
  "sha256_digest m = (let p = pad m in blocks (length p div 64) sha_h0 p)"

definition hex_digit :: "nat \<Rightarrow> char" where
  "hex_digit n = ''0123456789abcdef'' ! n"

definition hex_word :: "u32 \<Rightarrow> string" where
  "hex_word w = map (\<lambda>i. hex_digit (unat (drop_bit (4 * i) w AND 15))) [7, 6, 5, 4, 3, 2, 1, 0]"

definition hexdigest :: "string \<Rightarrow> string" where
  "hexdigest m = (case sha256_digest m of (a, b, c, d, e, f, g, h) \<Rightarrow> concat (map hex_word [a, b, c, d, e, f, g, h]))"

type_synonym hash_obj = string

definition hash_update :: "hash_obj \<Rightarrow> string \<Rightarrow> hash_obj" where
  "hash_update h data = h @ data"

section \<open>The content hash\<close>

definition list_files :: "filesystem \<Rightarrow> string \<Rightarrow> string list" where
  "list_files fs top_path =
     sort (concat (map (\<lambda>(root, dirs, files). map (join2 root) files) (os_walk fs top_path)))"

text \<open>The loop of \<^verbatim>\<open>update_hash\<close> that reads the open file 1024 bytes at a time.\<close>

function read_chunks :: "hash_obj \<Rightarrow> string \<Rightarrow> hash_obj" where
  "read_chunks hash_obj rest =
     (let data = take 1024 rest
      in if data = [] then hash_obj
         else read_chunks (hash_update hash_obj data) (drop 1024 rest))"
  by pat_completeness auto
termination
  by (relation "measure (\<lambda>(hash_obj, rest). length rest)") auto

definition update_hash :: "filesystem \<Rightarrow> hash_obj \<Rightarrow> string \<Rightarrow> string \<Rightarrow> error + hash_obj" where
  "update_hash fs hash_obj file_root file_path =
     (case relpath fs file_path file_root of
        Inl e \<Rightarrow> Inl e
      | Inr relative_path \<Rightarrow>
          (case open_rb fs file_path of
             Inl e \<Rightarrow> Inl e
           | Inr content \<Rightarrow> Inr (read_chunks (hash_update hash_obj relative_path) content)))"

text \<open>The inner loop of \<^verbatim>\<open>generate_content_hash\<close> over the files of a directory.\<close>

fun update_hash_files :: "filesystem \<Rightarrow> hash_obj \<Rightarrow> string \<Rightarrow> string list \<Rightarrow> error + hash_obj" where
  "update_hash_files fs sha256 source_dir [] = Inr sha256"
| "update_hash_files fs sha256 source_dir (source_file # files) =
     (case update_hash fs sha256 source_dir source_file of
        Inl e \<Rightarrow> Inl e
      | Inr h \<Rightarrow> update_hash_files fs h source_dir files)"

text \<open>The outer loop of \<^verbatim>\<open>generate_content_hash\<close> over the source paths.\<close>

fun hash_source_paths :: "filesystem \<Rightarrow> hash_obj \<Rightarrow> string list \<Rightarrow> error + hash_obj" where
  "hash_source_paths fs sha256 [] = Inr sha256"
| "hash_source_paths fs sha256 (source_path # source_paths) =
     (if isdir fs source_path
      then (case update_hash_files fs sha256 source_path (list_files fs source_path) of
              Inl e \<Rightarrow> Inl e
            | Inr h \<Rightarrow> hash_source_paths fs h source_paths)
      else (case update_hash fs sha256 (dirname source_path) source_path of
              Inl e \<Rightarrow> Inl e
            | Inr h \<Rightarrow> hash_source_paths fs h source_paths))"

definition generate_content_hash :: "filesystem \<Rightarrow> string list \<Rightarrow> error + hash_obj" where
  "generate_content_hash fs source_paths = hash_source_paths fs [] source_paths"

section \<open>Relative paths\<close>

definition get_abs_dirname :: "filesystem \<Rightarrow> string \<Rightarrow> string" where
  "get_abs_dirname fs p = (let p = abspath fs p in if isfile fs p then basename p else p)"

text \<open>
  The loop of \<^verbatim>\<open>build_relative_path\<close> that collects the leading elements \<^verbatim>\<open>selem\<close> shared
  by \<^verbatim>\<open>aelem\<close> and \<^verbatim>\<open>belem\<close>; \<^verbatim>\<open>belem[len(selem)]\<close> raises \<^verbatim>\<open>IndexError\<close> out of range.
\<close>

fun shared_elems :: "string list \<Rightarrow> string list \<Rightarrow> string list \<Rightarrow> error + string list" where
  "shared_elems belem selem [] = Inr selem"
| "shared_elems belem selem (e # aelem) =
     (if length selem < length belem
      then (if e \<noteq> belem ! length selem then Inr selem
            else shared_elems belem (selem @ [e]) aelem)
      else Inl IndexError)"

definition build_relative_path :: "filesystem \<Rightarrow> string \<Rightarrow> string \<Rightarrow> error + string" where
  "build_relative_path fs a b =
     (let aa = get_abs_dirname fs a;
          ba = get_abs_dirname fs b
      in if aa = ba then Inr a
         else (case shared_elems (str_split CHR ''/'' ba) [] (str_split CHR ''/'' aa) of
                 Inl e \<Rightarrow> Inl e
               | Inr selem \<Rightarrow>
                   if length selem < 2 then Inr aa
                   else let s = str_join ''/'' selem;
                            rem1 = str_replace s [] None ba;
                            rem2 = str_replace ''/'' [] (Some 1) rem1;
                            relem = str_split CHR ''/'' rem2;
                            rel_path = foldl (\<lambda>rel_path e. rel_path @ ''../'') [] relem
                        in Inr (rel_path @ a)))"

section \<open>Deleting old archives\<close>

text \<open>
  The sweep calls \<^verbatim>\<open>os.listdir\<close>, \<^verbatim>\<open>os.path.getmtime\<close> and \<^verbatim>\<open>os.remove\<close>. It is
  modelled over any implementation of the three, each a function of a state that returns
  the next state, so that a file that another process removes between two calls is a
  behaviour of the model. Times are microseconds since the epoch.
\<close>

record 's os_ops =
  os_listdir :: "string \<Rightarrow> 's \<Rightarrow> (errno + string list) \<times> 's"
  os_getmtime :: "string \<Rightarrow> 's \<Rightarrow> (errno + int) \<times> 's"
  os_remove :: "string \<Rightarrow> 's \<Rightarrow> (errno + unit) \<times> 's"

definition days :: "int \<Rightarrow> int" where
  "days n = n * 86400 * 1000000"

fun sweep :: "'s os_ops \<Rightarrow> int \<Rightarrow> string list \<Rightarrow> 's \<Rightarrow> (error + unit) \<times> 's" where
  "sweep os delete_older_than [] s = (Inr (), s)"
| "sweep os delete_older_than (name # names) s =
     (if endswith name ''.zip''
      then (case os_getmtime os name s of
              (Inl e, s1) \<Rightarrow>
                if e = ENOENT then sweep os delete_older_than names s1
                else (Inl (OSError e), s1)
            | (Inr file_modified, s1) \<Rightarrow>
                if file_modified < delete_older_than
                then (case os_remove os name s1 of
                        (Inl e, s2) \<Rightarrow>
                          if e = ENOENT then sweep os delete_older_than names s2
                          else (Inl (OSError e), s2)
                      | (Inr _, s2) \<Rightarrow> sweep os delete_older_than names s2)
                else sweep os delete_older_than names s1)
      else sweep os delete_older_than names s)"

definition delete_old_archives :: "'s os_ops \<Rightarrow> int \<Rightarrow> 's \<Rightarrow> (error + unit) \<times> 's" where
  "delete_old_archives os now s =
     (let delete_older_than = now - days 7
      in case os_listdir os ''builds'' s of
           (Inl e, s') \<Rightarrow> (Inl (OSError e), s')
         | (Inr names, s') \<Rightarrow> sweep os delete_older_than names s')"

text \<open>The three calls on the filesystem of this theory, with no other process.\<close>

definition posix :: "filesystem os_ops" where
  "posix =
     \<lparr> os_listdir = (\<lambda>p fs. (listdir fs p, fs)),
       os_getmtime = (\<lambda>p fs. (getmtime fs p, fs)),
       os_remove = (\<lambda>p fs. case remove fs p of Inl e \<Rightarrow> (Inl e, fs) | Inr fs' \<Rightarrow> (Inr (), fs')) \<rparr>"

section \<open>The script\<close>

text \<open>
  The input document read from standard input (its \<^verbatim>\<open>build_paths\<close> already decoded), the
  document written to standard output, and how the process ends: with an exit status, the
  document on standard output if one was written and the text on the error stream; or with
  an exception nobody catches, for which Python prints a traceback on the error stream,
  writes nothing more and exits with status 1.
\<close>

record query =
  q_build_command :: string
  q_build_paths :: "string list"
  q_module_relpath :: string
  q_runtime :: string
  q_source_path :: string

record response =
  r_filename :: string
  r_build_command :: string

datatype outcome = Exited nat "response option" string | Uncaught error

definition abort :: "string \<Rightarrow> outcome" where
  "abort message = Exited 1 None (message @ [CHR 0x0A])"

text \<open>The loop that relativizes every build path against the module path.\<close>

fun relative_paths :: "filesystem \<Rightarrow> string \<Rightarrow> string list \<Rightarrow> error + string list" where
  "relative_paths fs module_relpath [] = Inr []"
| "relative_paths fs module_relpath (dir # build_paths) =
     (case build_relative_path fs dir module_relpath of
        Inl e \<Rightarrow> Inl e
      | Inr p \<Rightarrow>
          (case relative_paths fs module_relpath build_paths of
             Inl e \<Rightarrow> Inl e
           | Inr ps \<Rightarrow> Inr (p # ps)))"

text \<open>
  The digest: the content hash of the paths, then the runtime, then the build command,
  in hexadecimal.
\<close>

definition content_digest :: "filesystem \<Rightarrow> string list \<Rightarrow> string \<Rightarrow> string \<Rightarrow> error + string" where
  "content_digest fs hash_dirs runtime build_command =
     (case generate_content_hash fs hash_dirs of
        Inl e \<Rightarrow> Inl e
      | Inr content_hash \<Rightarrow>
          Inr (hexdigest (hash_update (hash_update content_hash runtime) build_command)))"

definition substitute :: "string \<Rightarrow> string \<Rightarrow> string \<Rightarrow> string \<Rightarrow> string" where
  "substitute build_command filename runtime final_source_path =
     foldl (\<lambda>cmd (old, new). str_replace old new None cmd) build_command
       [(''$filename'', filename), (''$runtime'', runtime), (''$source'', final_source_path)]"

text \<open>
  The script from its validation on, as a function of the value of its variable
  \<^verbatim>\<open>source_path\<close>. \<open>set_order\<close> is the order in which Python iterates over the set built
  from a list (\<^verbatim>\<open>list(set(hash_dirs))\<close>), which the language leaves open; \<open>now\<close> is the
  clock.
\<close>

definition script_validated ::
  "(string list \<Rightarrow> string list) \<Rightarrow> int \<Rightarrow> filesystem \<Rightarrow> query \<Rightarrow> string \<Rightarrow> outcome \<times> filesystem" where
  "script_validated set_order now fs query source_path =
     (if source_path = [] then (abort ''source_path must be set.'', fs)
      else case build_relative_path fs (q_source_path query) (q_module_relpath query) of
        Inl e \<Rightarrow> (Uncaught e, fs)
      | Inr final_source_path \<Rightarrow>
          (case relative_paths fs (q_module_relpath query) (q_build_paths query) of
             Inl e \<Rightarrow> (Uncaught e, fs)
           | Inr dirs \<Rightarrow>
               let hash_dirs = set_order (final_source_path # dirs)
               in (case chdir fs (q_module_relpath query) of
                     Inl e \<Rightarrow> (Uncaught e, fs)
                   | Inr fs1 \<Rightarrow>
                       (case content_digest fs1 hash_dirs (q_runtime query) (q_build_command query) of
                          Inl e \<Rightarrow> (Uncaught e, fs1)
                        | Inr digest \<Rightarrow>
                            let filename = ''builds/'' @ digest @ ''.zip'';
                                build_command =
                                  substitute (q_build_command query) filename (q_runtime query)
                                    final_source_path
                            in (case delete_old_archives posix now fs1 of
                                  (Inl e, fs2) \<Rightarrow> (Uncaught e, fs2)
                                | (Inr _, fs2) \<Rightarrow>
                                    (Exited 0
                                       (Some \<lparr>r_filename = filename, r_build_command = build_command\<rparr>)
                                       [],
                                     fs2))))))"

definition script ::
  "(string list \<Rightarrow> string list) \<Rightarrow> int \<Rightarrow> filesystem \<Rightarrow> query \<Rightarrow> outcome \<times> filesystem" where
  "script set_order now fs query =
     script_validated set_order now fs query (abspath fs (q_source_path query))"

section \<open>Directory trees and identical content\<close>









section \<open>Concrete inputs\<close>

text \<open>
  A small filesystem: \<^verbatim>\<open>/repo\<close> holds the function's directory \<^verbatim>\<open>fn\<close> with one file, the
  module directory \<^verbatim>\<open>mod\<close>, two sibling directories under \<^verbatim>\<open>src\<close>, and the archive
  directory \<^verbatim>\<open>builds\<close> with an archive last modified on day 90 and one last modified on
  day 99. The working directory is \<^verbatim>\<open>/repo\<close>.
\<close>

definition repo_fs :: filesystem where
  "repo_fs =
     \<lparr> fs_root =
         [(''repo'',
           Dir [(''fn'', Dir [(''main.py'', File ''print(1)'')]),
                (''mod'', Dir []),
                (''src'', Dir [(''fn'', Dir []), (''mod'', Dir [])]),
                (''builds'', Dir [(''old.zip'', File ''PK-old''), (''new.zip'', File ''PK-new'')])]),
          (''opt'', Dir [])],
       fs_cwd = [''repo''],
       fs_mtime = (\<lambda>loc. if loc = [''repo'', ''builds'', ''old.zip''] then days 90 else days 99) \<rparr>"

text \<open>
  Two directories \<^verbatim>\<open>/d\<close> with one file each: \<^verbatim>\<open>ab\<close> holding the byte \<^verbatim>\<open>c\<close>, and \<^verbatim>\<open>a\<close>
  holding the bytes \<^verbatim>\<open>bc\<close>.
\<close>

definition ab_c_fs :: filesystem where
  "ab_c_fs = \<lparr> fs_root = [(''d'', Dir [(''ab'', File ''c'')])], fs_cwd = [], fs_mtime = (\<lambda>loc. 0) \<rparr>"

definition a_bc_fs :: filesystem where
  "a_bc_fs = \<lparr> fs_root = [(''d'', Dir [(''a'', File ''bc'')])], fs_cwd = [], fs_mtime = (\<lambda>loc. 0) \<rparr>"

text \<open>
  An operating system for the sweep in which \<^verbatim>\<open>gone.zip\<close> does not exist,
  \<^verbatim>\<open>locked.zip\<close> cannot be examined, \<^verbatim>\<open>raced.zip\<close> disappears between its examination and
  its removal and \<^verbatim>\<open>busy.zip\<close> cannot be removed; every other file was last modified at
  time 0, and the state lists the files removed so far.
\<close>

definition stub_os :: "string list os_ops" where
  "stub_os =
     \<lparr> os_listdir = (\<lambda>p s. (Inl ENOENT, s)),
       os_getmtime = (\<lambda>n s. (if n = ''gone.zip'' then Inl ENOENT
                                else if n = ''locked.zip'' then Inl EACCES
                                else Inr 0, s)),
       os_remove = (\<lambda>n s. if n = ''raced.zip'' then (Inl ENOENT, s)
                              else if n = ''busy.zip'' then (Inl EPERM, s)
                              else (Inr (), n # s)) \<rparr>"

text \<open>
  A working directory \<^verbatim>\<open>/repo\<close> with one file and the module directory \<^verbatim>\<open>mod\<close>, which
  holds an empty \<^verbatim>\<open>builds\<close>; and an input document with an empty \<^verbatim>\<open>source_path\<close>.
\<close>

definition mod_fs :: filesystem where
  "mod_fs =
     \<lparr> fs_root = [(''repo'', Dir [(''main.py'', File ''x''), (''mod'', Dir [(''builds'', Dir [])])])],
       fs_cwd = [''repo''],
       fs_mtime = (\<lambda>loc. 0) \<rparr>"

definition empty_source_query :: query where
  "empty_source_query =
     \<lparr> q_build_command = ''c'', q_build_paths = [], q_module_relpath = ''mod'',
       q_runtime = ''r'', q_source_path = [] \<rparr>"


section \<open>Strings, paths and path resolution: basic facts\<close>

lemma str_split_nonempty: "str_split c xs \<noteq> []"
  by (induction xs) (auto split: list.splits)

lemma str_split_sep_Cons: "str_split c (c # xs) = [] # str_split c xs"
  by simp

lemma str_split_append: "str_split c (xs @ c # ys) = str_split c xs @ str_split c ys"
  by (induction xs) (auto split: list.splits simp: str_split_nonempty)

lemma str_split_no_sep: "c \<notin> set xs \<Longrightarrow> str_split c xs = [xs]"
  by (induction xs) auto

lemma resolve_from_append:
  "resolve_from r loc (cs @ ds) =
     (case resolve_from r loc cs of Inl e \<Rightarrow> Inl e | Inr l \<Rightarrow> resolve_from r l ds)"
  by (induction cs arbitrary: loc) (auto split: option.splits node.splits)

lemma resolve_from_trailing_empty:
  "resolve_from r loc (cs @ [[]]) = Inr l \<Longrightarrow> \<exists>es. node_at r l = Some (Dir es)"
  by (auto simp: resolve_from_append split: sum.splits option.splits node.splits)

lemma basename_eq: "basename p = rev (takeWhile (\<lambda>c. c \<noteq> CHR ''/'') (rev p))"
proof -
  have "rev p = takeWhile (\<lambda>c. c \<noteq> CHR ''/'') (rev p) @ dropWhile (\<lambda>c. c \<noteq> CHR ''/'') (rev p)"
    by simp
  then have "p = rev (dropWhile (\<lambda>c. c \<noteq> CHR ''/'') (rev p)) @ rev (takeWhile (\<lambda>c. c \<noteq> CHR ''/'') (rev p))"
    by (metis rev_append rev_rev_ident)
  moreover have "rfind_sep p = length (rev (dropWhile (\<lambda>c. c \<noteq> CHR ''/'') (rev p)))"
    unfolding rfind_sep_def
    by (metis (no_types, lifting) add_diff_cancel_left' length_append length_rev takeWhile_dropWhile_id)
  ultimately show ?thesis
    unfolding basename_def by (metis append_eq_conv_conj)
qed

lemma basename_no_sep: "CHR ''/'' \<notin> set (basename p)"
  unfolding basename_eq by (auto dest: set_takeWhileD)

lemma basename_empty_iff: "basename p = [] \<longleftrightarrow> p = [] \<or> last p = CHR ''/''"
  unfolding basename_eq by (cases p rule: rev_cases) (auto simp: takeWhile_eq_Nil_iff)

lemma isfile_not_trailing_sep:
  assumes "isfile fs p" shows "p \<noteq> [] \<and> last p \<noteq> CHR ''/''"
proof (rule ccontr)
  assume "\<not> (p \<noteq> [] \<and> last p \<noteq> CHR ''/'')"
  then consider "p = []" | q where "p = q @ ''/''"
    by (metis append_butlast_last_id)
  then show False
  proof cases
    case 1
    with assms show False by (simp add: isfile_def stat_def resolve_def)
  next
    case 2
    then have sp: "str_split CHR ''/'' p = str_split CHR ''/'' q @ [[]]"
      by (simp add: str_split_append)
    from assms obtain l c where l: "resolve fs p = Inr l" "node_at (Dir (fs_root fs)) l = Some (File c)"
      by (auto simp: isfile_def stat_def split: sum.splits option.splits node.splits)
    from l(1) 2 sp have "resolve_from (Dir (fs_root fs)) (if isabs p then [] else fs_cwd fs) (str_split CHR ''/'' q @ [[]]) = Inr l"
      by (simp add: resolve_def)
    from resolve_from_trailing_empty [OF this] l(2) show False by simp
  qed
qed

lemma isfile_basename_nonempty: "isfile fs p \<Longrightarrow> basename p \<noteq> []"
  using isfile_not_trailing_sep [of fs p] by (simp add: basename_empty_iff)

lemma normpath_absolute:
  assumes "startswith P ''/''"
  shows "\<exists>rest. normpath P = CHR ''/'' # rest"
proof -
  from assms have ne: "P \<noteq> []" by (auto simp: startswith_def)
  from assms have "initial_slashes P = 1 \<or> initial_slashes P = 2"
    by (simp add: initial_slashes_def)
  then obtain k where k: "initial_slashes P = Suc k" by auto
  show ?thesis
    using ne by (simp add: normpath_def Let_def k)
qed

lemma getcwd_absolute: "\<exists>rest. getcwd fs = CHR ''/'' # rest"
  by (simp add: getcwd_def)

lemma abspath_absolute: "\<exists>rest. abspath fs p = CHR ''/'' # rest"
proof -
  have "startswith (if isabs p then p else join2 (getcwd fs) p) ''/''"
    using getcwd_absolute [of fs]
    by (auto simp: isabs_def join2_def startswith_def)
  from normpath_absolute [OF this] show ?thesis
    by (simp add: abspath_def)
qed

lemma abspath_nonempty: "abspath fs p \<noteq> []"
  using abspath_absolute [of fs p] by auto

lemma commonprefix_Nil2: "commonprefix xs [] = []"
  by (cases xs) auto

lemma shared_elems_eq:
  "shared_elems belem selem aelem =
     (let rest = drop (length selem) belem; k = length (commonprefix aelem rest)
      in if k = length rest \<and> k < length aelem then Inl IndexError
         else Inr (selem @ commonprefix aelem rest))"
proof (induction aelem arbitrary: selem)
  case Nil
  show ?case by (simp add: Let_def)
next
  case (Cons e aelem)
  show ?case
  proof (cases "length selem < length belem")
    case False
    then show ?thesis by (simp add: Let_def commonprefix_Nil2)
  next
    case True
    then obtain r rs where d: "drop (length selem) belem = r # rs"
      by (metis Cons_nth_drop_Suc)
    then have r: "belem ! length selem = r"
      by (metis True hd_drop_conv_nth list.sel(1))
    have d': "drop (Suc (length selem)) belem = rs"
      by (metis d drop_Suc list.sel(3) tl_drop)
    show ?thesis
    proof (cases "e = r")
      case False
      with True d r show ?thesis by (simp add: Let_def)
    next
      case e: True
      have "shared_elems belem selem (e # aelem) = shared_elems belem (selem @ [e]) aelem"
        using True e r by simp
      also have "\<dots> = (let rest = rs; k = length (commonprefix aelem rest)
          in if k = length rest \<and> k < length aelem then Inl IndexError
             else Inr ((selem @ [e]) @ commonprefix aelem rest))"
        using Cons.IH [of "selem @ [e]"] d' by simp
      finally show ?thesis
        using d e by (simp add: Let_def)
    qed
  qed
qed

lemma length_commonprefix_le: "length (commonprefix xs ys) \<le> length ys"
  by (induction xs ys rule: commonprefix.induct) auto

lemma commonprefix_same: "commonprefix xs xs = xs"
  by (induction xs) auto

section \<open>Relativization: the defects\<close>

text \<open>
  C3 (the relativization never raises and always returns a string). The loop reads
  \<^verbatim>\<open>belem[len(selem)]\<close> with no bound check, so when every element of the reference root is
  matched and the path has more elements, it raises \<^verbatim>\<open>IndexError\<close>. This happens whenever
  the path lies under the reference root: for the path \<^verbatim>\<open>/repo/fn\<close> and the root \<^verbatim>\<open>/repo\<close> the
  function raises, and the script run on these ends with the uncaught exception.
\<close>

theorem build_relative_path_raises_IndexError:
  "build_relative_path repo_fs ''/repo/fn'' ''/repo'' = Inl IndexError
   \<and> fst (script set_order now repo_fs
         \<lparr> q_build_command = ''zip $filename $source'', q_build_paths = [],
           q_module_relpath = ''/repo'', q_runtime = ''go1.x'', q_source_path = ''/repo/fn'' \<rparr>)
       = Uncaught IndexError"
  by code_simp

text \<open>
  C4 (for a path that is a file, the value compared against the reference root is the
  absolute form of the file's containing directory). \<^verbatim>\<open>get_abs_dirname\<close> returns
  \<^verbatim>\<open>os.path.basename\<close> of the absolute path, the file's own name, where its docstring
  promises an absolute dirname: for the file \<^verbatim>\<open>/repo/fn/main.py\<close> it returns \<^verbatim>\<open>main.py\<close>, not
  \<^verbatim>\<open>/repo/fn\<close>.
\<close>

theorem get_abs_dirname_returns_basename:
  "isfile repo_fs ''/repo/fn/main.py''
   \<and> get_abs_dirname repo_fs ''/repo/fn/main.py'' = ''main.py''
   \<and> dirname (abspath repo_fs ''/repo/fn/main.py'') = ''/repo/fn''"
  by code_simp

text \<open>
  C5 (for two paths with a common ancestor at least two segments deep, resolving the
  result against the root gives back the resolved path). The function climbs from the
  root to the common ancestor and then appends the path as it was given, not the part of
  it below the common ancestor. For the absolute path \<^verbatim>\<open>/repo/fn\<close> and the root
  \<^verbatim>\<open>/repo/mod\<close> the result \<^verbatim>\<open>..//repo/fn\<close> resolves against the root to \<^verbatim>\<open>/repo/repo/fn\<close>;
  for the relative path \<^verbatim>\<open>src/fn\<close> and the root \<^verbatim>\<open>src/mod\<close> (working directory \<^verbatim>\<open>/repo\<close>)
  the result \<^verbatim>\<open>../src/fn\<close> resolves to \<^verbatim>\<open>/repo/src/src/fn\<close>.
\<close>

theorem build_relative_path_no_round_trip:
  "build_relative_path repo_fs ''/repo/fn'' ''/repo/mod'' = Inr ''..//repo/fn''
   \<and> abspath repo_fs (join2 (abspath repo_fs ''/repo/mod'') ''..//repo/fn'') = ''/repo/repo/fn''
   \<and> abspath repo_fs ''/repo/fn'' = ''/repo/fn''
   \<and> build_relative_path repo_fs ''src/fn'' ''src/mod'' = Inr ''../src/fn''
   \<and> abspath repo_fs (join2 (abspath repo_fs ''src/mod'') ''../src/fn'') = ''/repo/src/src/fn''
   \<and> abspath repo_fs ''src/fn'' = ''/repo/src/fn''"
  by code_simp

section \<open>Relativization: the fallback\<close>

text \<open>
  When the path is not an existing regular file and the absolute forms of the path and of
  the reference root share fewer than two leading segments, the relativization returns the
  absolute form of the path, as the comment in the code says. (The absolute forms are
  \<^verbatim>\<open>os.path.abspath\<close> of the two arguments; their segments are what \<^verbatim>\<open>split('/')\<close> gives,
  the first of which is the empty string before the leading slash.)
\<close>

lemma fallback_for_non_files:
  assumes nf: "\<not> isfile fs (abspath fs a)"
    and k: "length (commonprefix (str_split CHR ''/'' (abspath fs a))
                                 (str_split CHR ''/'' (abspath fs b))) < 2"
  shows "build_relative_path fs a b = Inr (abspath fs a)"
proof -
  obtain ra where A: "abspath fs a = CHR ''/'' # ra"
    using abspath_absolute by blast
  obtain rb where B: "abspath fs b = CHR ''/'' # rb"
    using abspath_absolute by blast
  have aa: "get_abs_dirname fs a = abspath fs a"
    using nf by (simp add: get_abs_dirname_def Let_def)
  obtain a1 as where sa: "str_split CHR ''/'' ra = a1 # as"
    using str_split_nonempty by (cases "str_split CHR ''/'' ra") auto
  have aelem: "str_split CHR ''/'' (abspath fs a) = [] # a1 # as"
    by (simp add: A sa)
  show ?thesis
  proof (cases "isfile fs (abspath fs b)")
    case True
    then have ba: "get_abs_dirname fs b = basename (abspath fs b)"
      by (simp add: get_abs_dirname_def Let_def)
    have ne: "basename (abspath fs b) \<noteq> []"
      using True by (rule isfile_basename_nonempty)
    have belem: "str_split CHR ''/'' (basename (abspath fs b)) = [basename (abspath fs b)]"
      by (rule str_split_no_sep) (rule basename_no_sep)
    have neq: "abspath fs a \<noteq> basename (abspath fs b)"
    proof
      assume "abspath fs a = basename (abspath fs b)"
      then have "CHR ''/'' \<in> set (basename (abspath fs b))"
        using A by (metis list.set_intros(1))
      then show False using basename_no_sep by blast
    qed
    show ?thesis
      using ne neq by (simp add: build_relative_path_def Let_def aa ba belem aelem)
  next
    case False
    then have ba: "get_abs_dirname fs b = abspath fs b"
      by (simp add: get_abs_dirname_def Let_def)
    obtain b1 bs where sb: "str_split CHR ''/'' rb = b1 # bs"
      using str_split_nonempty by (cases "str_split CHR ''/'' rb") auto
    have belem: "str_split CHR ''/'' (abspath fs b) = [] # b1 # bs"
      by (simp add: B sb)
    have neq: "abspath fs a \<noteq> abspath fs b"
      using k aelem by (auto simp: commonprefix_same)
    let ?cp = "commonprefix ([] # a1 # as) ([] # b1 # bs)"
    have small: "length ?cp < 2"
      using k by (simp add: aelem belem)
    have sh: "shared_elems ([] # b1 # bs) [] ([] # a1 # as) = Inr ?cp"
      using small by (simp add: shared_elems_eq Let_def)
    show ?thesis
      using neq small sh by (simp add: build_relative_path_def Let_def aa ba belem aelem)
  qed
qed

text \<open>The fallback at work: \<^verbatim>\<open>/repo/fn\<close> against \<^verbatim>\<open>/opt\<close>.\<close>

lemma fallback_for_non_files_example:
  "\<not> isfile repo_fs (abspath repo_fs ''/repo/fn'')
   \<and> length (commonprefix (str_split CHR ''/'' (abspath repo_fs ''/repo/fn''))
                            (str_split CHR ''/'' (abspath repo_fs ''/opt''))) < 2
   \<and> build_relative_path repo_fs ''/repo/fn'' ''/opt'' = Inr ''/repo/fn''"
proof -
  have h1: "\<not> isfile repo_fs (abspath repo_fs ''/repo/fn'')"
    by code_simp
  have h2: "length (commonprefix (str_split CHR ''/'' (abspath repo_fs ''/repo/fn''))
                            (str_split CHR ''/'' (abspath repo_fs ''/opt''))) < 2"
    by code_simp
  have h3: "abspath repo_fs ''/repo/fn'' = ''/repo/fn''"
    by code_simp
  show ?thesis
    using h1 h2 h3 fallback_for_non_files [OF h1 h2] by simp
qed

text \<open>
  C6 (for two paths whose resolved forms share fewer than two leading segments, the
  relativization returns the absolute form of the original path). For a path that is an
  existing regular file the code does not: the value it compares and returns is what
  \<^verbatim>\<open>get_abs_dirname\<close> gives, the file's base name (the defect of C4), where the comment
  at the branch says \<^verbatim>\<open>so we use the absolute path\<close>. For the file \<^verbatim>\<open>/repo/fn/main.py\<close> and
  the root \<^verbatim>\<open>/opt\<close>, which share only the leading empty segment, the result is \<^verbatim>\<open>main.py\<close>
  and not \<^verbatim>\<open>/repo/fn/main.py\<close>.
\<close>

theorem fallback_returns_base_name_of_file:
  "length (commonprefix (str_split CHR ''/'' (abspath repo_fs ''/repo/fn/main.py''))
                         (str_split CHR ''/'' (abspath repo_fs ''/opt''))) < 2
   \<and> abspath repo_fs ''/repo/fn/main.py'' = ''/repo/fn/main.py''
   \<and> build_relative_path repo_fs ''/repo/fn/main.py'' ''/opt'' = Inr ''main.py''
   \<and> build_relative_path repo_fs ''/repo/fn/main.py'' ''/opt''
       \<noteq> Inr (abspath repo_fs ''/repo/fn/main.py'')"
  by code_simp

section \<open>The sweep: the defect\<close>

text \<open>
  C7 (the sweep deletes the archives of the archive directory that are older than seven
  days). \<^verbatim>\<open>delete_old_archives\<close> lists \<^verbatim>\<open>builds\<close> but passes the bare names to
  \<^verbatim>\<open>os.path.getmtime\<close> and \<^verbatim>\<open>os.remove\<close>, which look them up in the working directory.
  On day 100, with a 10-day-old and a 1-day-old archive in \<^verbatim>\<open>builds\<close>, both lookups
  fail with \<^verbatim>\<open>ENOENT\<close>, which the sweep ignores: it succeeds and both archives are still
  there.
\<close>

theorem delete_old_archives_deletes_nothing:
  "getmtime repo_fs ''builds/old.zip'' = Inr (days 100 - days 10)
   \<and> getmtime repo_fs ''builds/new.zip'' = Inr (days 100 - days 1)
   \<and> fst (delete_old_archives posix (days 100) repo_fs) = Inr ()
   \<and> listdir (snd (delete_old_archives posix (days 100) repo_fs)) ''builds''
       = Inr [''old.zip'', ''new.zip'']"
  by code_simp

section \<open>The sweep: errors\<close>

lemma sweep_never_ENOENT: "fst (sweep os t names s) \<noteq> Inl (OSError ENOENT)"
  by (induction names arbitrary: s) (auto split: prod.splits sum.splits)

lemma sweep_succeeds_if_only_ENOENT:
  assumes "\<And>n s e s'. os_getmtime os n s = (Inl e, s') \<Longrightarrow> e = ENOENT"
    and "\<And>n s e s'. os_remove os n s = (Inl e, s') \<Longrightarrow> e = ENOENT"
  shows "fst (sweep os t names s) = Inr ()"
  using assms
  by (induction names arbitrary: s) (auto split: prod.splits sum.splits)

text \<open>
  C8 (during the sweep a file that is not found while it is examined or deleted counts as
  success and the sweep goes on; every other failure is fatal). For an archive name at the
  head of the listing: \<^verbatim>\<open>ENOENT\<close> from \<^verbatim>\<open>getmtime\<close>, or from \<^verbatim>\<open>remove\<close> of a file old
  enough, leaves the sweep to go on with the rest of the listing; any other error of
  either call is the result of the sweep, raised as it is. So the sweep as a whole never
  ends with \<^verbatim>\<open>ENOENT\<close>.
\<close>

theorem sweep_ignores_only_not_found:
  "(endswith name ''.zip'' \<and> os_getmtime os name s = (Inl ENOENT, s1)
      \<longrightarrow> sweep os t (name # names) s = sweep os t names s1)
   \<and> (endswith name ''.zip'' \<and> os_getmtime os name s = (Inr m, s1) \<and> m < t
        \<and> os_remove os name s1 = (Inl ENOENT, s2)
      \<longrightarrow> sweep os t (name # names) s = sweep os t names s2)
   \<and> (endswith name ''.zip'' \<and> os_getmtime os name s = (Inl e, s1) \<and> e \<noteq> ENOENT
      \<longrightarrow> sweep os t (name # names) s = (Inl (OSError e), s1))
   \<and> (endswith name ''.zip'' \<and> os_getmtime os name s = (Inr m, s1) \<and> m < t
        \<and> os_remove os name s1 = (Inl e, s2) \<and> e \<noteq> ENOENT
      \<longrightarrow> sweep os t (name # names) s = (Inl (OSError e), s2))
   \<and> fst (sweep os t names s) \<noteq> Inl (OSError ENOENT)"
  using sweep_never_ENOENT [of os t names s] by simp

text \<open>
  Each case on the operating system \<open>stub_os\<close>, and a whole sweep that goes on past a
  missing file and a file lost to a race and removes the one archive left.
\<close>

theorem sweep_ignores_only_not_found_witness:
  "(endswith ''gone.zip'' ''.zip'' \<and> os_getmtime stub_os ''gone.zip'' [] = (Inl ENOENT, [])
     \<and> sweep stub_os 10 [''gone.zip'', ''a.zip''] [] = sweep stub_os 10 [''a.zip''] [])
   \<and> (endswith ''raced.zip'' ''.zip'' \<and> os_getmtime stub_os ''raced.zip'' [] = (Inr 0, [])
     \<and> (0::int) < 10 \<and> os_remove stub_os ''raced.zip'' [] = (Inl ENOENT, [])
     \<and> sweep stub_os 10 [''raced.zip'', ''a.zip''] [] = sweep stub_os 10 [''a.zip''] [])
   \<and> (endswith ''locked.zip'' ''.zip''
     \<and> os_getmtime stub_os ''locked.zip'' [] = (Inl EACCES, []) \<and> EACCES \<noteq> ENOENT
     \<and> sweep stub_os 10 [''locked.zip'', ''a.zip''] [] = (Inl (OSError EACCES), []))
   \<and> (endswith ''busy.zip'' ''.zip'' \<and> os_getmtime stub_os ''busy.zip'' [] = (Inr 0, [])
     \<and> os_remove stub_os ''busy.zip'' [] = (Inl EPERM, []) \<and> EPERM \<noteq> ENOENT
     \<and> sweep stub_os 10 [''busy.zip'', ''a.zip''] [] = (Inl (OSError EPERM), []))
   \<and> sweep stub_os 10 [''gone.zip'', ''raced.zip'', ''notes.txt'', ''a.zip''] []
       = (Inr (), [''a.zip''])"
proof -
  have h1: "endswith ''gone.zip'' ''.zip''
      \<and> os_getmtime stub_os ''gone.zip'' [] = (Inl ENOENT, [])"
    by (simp add: stub_os_def endswith_def suffix_def)
  have h2: "endswith ''raced.zip'' ''.zip'' \<and> os_getmtime stub_os ''raced.zip'' [] = (Inr 0, [])
      \<and> (0::int) < 10 \<and> os_remove stub_os ''raced.zip'' [] = (Inl ENOENT, [])"
    by (simp add: stub_os_def endswith_def suffix_def)
  have h3: "endswith ''locked.zip'' ''.zip''
      \<and> os_getmtime stub_os ''locked.zip'' [] = (Inl EACCES, []) \<and> EACCES \<noteq> ENOENT"
    by (simp add: stub_os_def endswith_def suffix_def)
  have h4: "endswith ''busy.zip'' ''.zip'' \<and> os_getmtime stub_os ''busy.zip'' [] = (Inr 0, [])
      \<and> (0::int) < 10 \<and> os_remove stub_os ''busy.zip'' [] = (Inl EPERM, []) \<and> EPERM \<noteq> ENOENT"
    by (simp add: stub_os_def endswith_def suffix_def)
  have c1: "sweep stub_os 10 [''gone.zip'', ''a.zip''] [] = sweep stub_os 10 [''a.zip''] []"
    using h1 sweep_ignores_only_not_found
      [of "''gone.zip''" stub_os "[]" "[]" 10 "[''a.zip'']"]
    by blast
  have c2: "sweep stub_os 10 [''raced.zip'', ''a.zip''] [] = sweep stub_os 10 [''a.zip''] []"
    using h2 sweep_ignores_only_not_found
      [of "''raced.zip''" stub_os "[]" "[]" 10 "[''a.zip'']" 0 "[]"]
    by blast
  have c3: "sweep stub_os 10 [''locked.zip'', ''a.zip''] [] = (Inl (OSError EACCES), [])"
    using h3 sweep_ignores_only_not_found
      [of "''locked.zip''" stub_os "[]" "[]" 10 "[''a.zip'']" 0 "[]" EACCES]
    by blast
  have c4: "sweep stub_os 10 [''busy.zip'', ''a.zip''] [] = (Inl (OSError EPERM), [])"
    using h4 sweep_ignores_only_not_found
      [of "''busy.zip''" stub_os "[]" "[]" 10 "[''a.zip'']" 0 "[]" EPERM]
    by blast
  have c5: "sweep stub_os 10 [''gone.zip'', ''raced.zip'', ''notes.txt'', ''a.zip''] []
      = (Inr (), [''a.zip''])"
    by code_simp
  show ?thesis using h1 h2 h3 h4 c1 c2 c3 c4 c5 by simp
qed

section \<open>The content hash: names and contents are not delimited\<close>

text \<open>
  C10 (the relative name and the content of a file are fed to the hash with nothing
  between them, so two different inputs give the same digest). A directory whose only
  file \<^verbatim>\<open>ab\<close> holds \<^verbatim>\<open>c\<close> and a directory whose only file \<^verbatim>\<open>a\<close> holds \<^verbatim>\<open>bc\<close> both feed
  the bytes \<^verbatim>\<open>abc\<close>, and have the same digest for every runtime and build command.
\<close>

theorem name_content_boundary_collision:
  "fs_root ab_c_fs \<noteq> fs_root a_bc_fs
   \<and> generate_content_hash ab_c_fs [''/d''] = Inr ''abc''
   \<and> generate_content_hash a_bc_fs [''/d''] = Inr ''abc''
   \<and> content_digest ab_c_fs [''/d''] runtime build_command
       = content_digest a_bc_fs [''/d''] runtime build_command"
proof -
  have 1: "generate_content_hash ab_c_fs [''/d''] = Inr ''abc''"
    by code_simp
  have 2: "generate_content_hash a_bc_fs [''/d''] = Inr ''abc''"
    by code_simp
  have 3: "fs_root ab_c_fs \<noteq> fs_root a_bc_fs"
    by (simp add: ab_c_fs_def a_bc_fs_def)
  show ?thesis
    using 1 2 3 by (simp add: content_digest_def)
qed

section \<open>Normalized paths\<close>























section \<open>The files of a directory tree\<close>






















lemma isdir_stat: "isdir fs t \<longleftrightarrow> (\<exists>es. stat fs t = Inr (Dir es))"
  by (auto simp: isdir_def split: sum.splits node.splits)





section \<open>Single files\<close>



















section \<open>The content hash does not depend on the location\<close>



section \<open>The script: validation\<close>

lemma script_never_aborts:
  "fst (script set_order now fs query) \<noteq> abort ''source_path must be set.''"
  by (simp add: script_def script_validated_def abspath_nonempty abort_def Let_def
      split: sum.splits prod.splits)

text \<open>
  C9 (an input document whose \<^verbatim>\<open>source_path\<close> resolves to the empty string makes the process
  abort with a non-zero exit status and a message on the error stream, with nothing on
  standard output). The script validates \<^verbatim>\<open>os.path.abspath(query['source_path'])\<close>, which
  is never empty: an empty \<^verbatim>\<open>source_path\<close> resolves to the working directory. So the
  validation rejects nothing. Run in \<^verbatim>\<open>/repo\<close> on a document with an empty \<^verbatim>\<open>source_path\<close>
  and the module path \<^verbatim>\<open>mod\<close>, the script takes \<^verbatim>\<open>../\<close> as the source, hashes the
  working directory and exits with status 0 and a document on standard output; and no
  run of the script on any document ends with the message of the validation.
\<close>

theorem empty_source_path_is_accepted:
  "abspath mod_fs (q_source_path empty_source_query) = ''/repo''
   \<and> fst (script remdups now mod_fs empty_source_query)
       = Exited 0
           (Some \<lparr> r_filename = ''builds/'' @ hexdigest ''main.pyxrc'' @ ''.zip'',
                   r_build_command = ''c'' \<rparr>) []
   \<and> fst (script set_order now fs query)
       \<noteq> Exited 1 None (''source_path must be set.'' @ [CHR 0x0A])"
proof -
  have a: "abspath mod_fs (q_source_path empty_source_query) = ''/repo''"
    by code_simp
  have b: "build_relative_path mod_fs (q_source_path empty_source_query)
             (q_module_relpath empty_source_query) = Inr ''../''"
    by code_simp
  have c: "relative_paths mod_fs (q_module_relpath empty_source_query)
             (q_build_paths empty_source_query) = Inr []"
    by code_simp
  obtain fs1 where d: "chdir mod_fs (q_module_relpath empty_source_query) = Inr fs1"
      and fs1: "fs1 = mod_fs\<lparr>fs_cwd := [''repo'', ''mod'']\<rparr>"
    by (simp add: chdir_def resolve_def isabs_def startswith_def mod_fs_def
        empty_source_query_def)
  have e: "generate_content_hash (mod_fs\<lparr>fs_cwd := [''repo'', ''mod'']\<rparr>) [''../'']
      = Inr ''main.pyx''"
    by code_simp
  have f: "delete_old_archives posix now (mod_fs\<lparr>fs_cwd := [''repo'', ''mod'']\<rparr>)
      = (Inr (), mod_fs\<lparr>fs_cwd := [''repo'', ''mod'']\<rparr>)"
    by (simp add: delete_old_archives_def posix_def listdir_def stat_def resolve_def isabs_def
        startswith_def mod_fs_def)
  have g: "substitute ''c'' fn ''r'' ''../'' = ''c''" for fn
    by (simp add: substitute_def)
  have q: "q_build_command empty_source_query = ''c''" "q_runtime empty_source_query = ''r''"
    by (simp_all add: empty_source_query_def)
  have run: "fst (script remdups now mod_fs empty_source_query)
       = Exited 0
           (Some \<lparr> r_filename = ''builds/'' @ hexdigest ''main.pyxrc'' @ ''.zip'',
                   r_build_command = ''c'' \<rparr>) []"
    using a b c d e f g
    by (simp add: script_def script_validated_def fs1 q content_digest_def hash_update_def)
  show ?thesis
    using a run script_never_aborts [of set_order now fs query] by (simp add: abort_def)
qed

end
